theory Spec2Isabelle
  imports Complex_Main
begin

section \<open>ChainLottery dashboard: the client-side state handlers\<close>

text \<open>
  The React components of the dashboard keep their state in \<open>useState\<close> cells and change
  it in event handlers and effects. Each component's cells are a record here, each handler
  a function from the record (and the values the hooks expose at that render) to the new
  record. A JavaScript \<open>number\<close> that holds an index, an identifier or a count is an
  \<open>int\<close>; \<open>number | undefined\<close> is \<open>int option\<close> with \<open>None\<close> for \<open>undefined\<close>; a
  promise that may reject is a sum with \<open>Inl\<close> for the rejection.
\<close>

subsection \<open>JavaScript arithmetic used by the handlers\<close>

text \<open>
  \<open>a % b\<close> on integral numbers takes the sign of the dividend; \<open>None\<close> stands for the
  \<open>NaN\<close> that a zero divisor gives.
\<close>

definition js_rem :: "int \<Rightarrow> int \<Rightarrow> int option" where
  "js_rem a b = (if b = 0 then None else Some (sgn a * (\<bar>a\<bar> mod \<bar>b\<bar>)))"

text \<open>Truthiness of a \<open>number | undefined\<close>: \<open>undefined\<close> and \<open>0\<close> are falsy.\<close>

definition truthy :: "int option \<Rightarrow> bool" where
  "truthy v = (case v of None \<Rightarrow> False | Some n \<Rightarrow> n \<noteq> 0)"

subsection \<open>PromoBanner\<close>

record banner =
  banner_id :: int
  url :: string
  fallbackColor :: string
  title :: string
  description :: string

definition bannerImages :: "banner list" where
  "bannerImages =
    [\<lparr>banner_id = 1,
      url = ''https://images.pexels.com/photos/844124/pexels-photo-844124.jpeg?auto=compress&cs=tinysrgb&w=800'',
      fallbackColor = ''bg-gradient-to-r from-indigo-500 to-purple-800'',
      title = ''JACKPOT ALERT'',
      description = ''Current Jackpot Over $10 Million!''\<rparr>,
     \<lparr>banner_id = 2,
      url = ''https://images.pexels.com/photos/3943716/pexels-photo-3943716.jpeg?auto=compress&cs=tinysrgb&w=800'',
      fallbackColor = ''bg-gradient-to-r from-blue-700 to-blue-900'',
      title = ''NEW PLAYERS BONUS'',
      description = ''Get 20% Extra on Your First Ticket Purchase''\<rparr>,
     \<lparr>banner_id = 3,
      url = ''https://images.pexels.com/photos/259249/pexels-photo-259249.jpeg?auto=compress&cs=tinysrgb&w=800'',
      fallbackColor = ''bg-gradient-to-r from-emerald-600 to-teal-800'',
      title = ''WINNERS EVERY DAY'',
      description = ''Join Thousands of Winners This Month''\<rparr>,
     \<lparr>banner_id = 4,
      url = ''https://images.pexels.com/photos/1820770/pexels-photo-1820770.jpeg?auto=compress&cs=tinysrgb&w=800'',
      fallbackColor = ''bg-gradient-to-r from-red-600 to-purple-900'',
      title = ''PLAY RESPONSIBLY'',
      description = ''Set Limits and Enjoy The Game''\<rparr>,
     \<lparr>banner_id = 5,
      url = ''https://images.pexels.com/photos/7821487/pexels-photo-7821487.jpeg?auto=compress&cs=tinysrgb&w=800'',
      fallbackColor = ''bg-gradient-to-r from-amber-500 to-orange-700'',
      title = ''WEEKLY DRAWS'',
      description = ''Every Tuesday and Friday - Never Miss Out!''\<rparr>,
     \<lparr>banner_id = 6,
      url = ''https://images.pexels.com/photos/7654418/pexels-photo-7654418.jpeg?auto=compress&cs=tinysrgb&w=800'',
      fallbackColor = ''bg-gradient-to-r from-fuchsia-600 to-pink-900'',
      title = ''CRYPTO PAYOUTS'',
      description = ''Instant Withdrawals in ETH or BNB''\<rparr>]"

text \<open>
  The two updaters passed to \<open>setCurrentIndex\<close>:
  \<open>(prevIndex + 1) % bannerImages.length\<close> and
  \<open>(prevIndex - 1 + bannerImages.length) % bannerImages.length\<close>.
\<close>

definition goToNextSlide :: "int \<Rightarrow> int option" where
  "goToNextSlide prevIndex = js_rem (prevIndex + 1) (int (length bannerImages))"

definition goToPrevSlide :: "int \<Rightarrow> int option" where
  "goToPrevSlide prevIndex =
     js_rem (prevIndex - 1 + int (length bannerImages)) (int (length bannerImages))"

subsection \<open>ParticipantsList: series title and ticket price\<close>

text \<open>The two \<open>switch (sharedSeriesIndex)\<close> tables; \<open>undefined\<close> falls to \<open>default\<close>.\<close>

definition getSeriesTitle :: "int option \<Rightarrow> string" where
  "getSeriesTitle sharedSeriesIndex =
     (if sharedSeriesIndex = Some 0 then ''Beginner Series''
      else if sharedSeriesIndex = Some 1 then ''Intermediate Series''
      else if sharedSeriesIndex = Some 2 then ''Monthly Mega Series''
      else if sharedSeriesIndex = Some 3 then ''Weekly Express Series''
      else if sharedSeriesIndex = Some 4 then ''Quarterly Rewards Series''
      else if sharedSeriesIndex = Some 5 then ''Annual Championship Series''
      else ''Lottery Series'')"

definition getTicketPrice :: "int option \<Rightarrow> string" where
  "getTicketPrice sharedSeriesIndex =
     (if sharedSeriesIndex = Some 0 then ''0.0001''
      else if sharedSeriesIndex = Some 1 then ''0.0002''
      else if sharedSeriesIndex = Some 2 then ''0.0005''
      else if sharedSeriesIndex = Some 3 then ''0.0001''
      else if sharedSeriesIndex = Some 4 then ''0.0008''
      else if sharedSeriesIndex = Some 5 then ''0.001''
      else ''0.0001'')"

subsection \<open>BuyTickets: number selection\<close>

text \<open>
  The updater that \<open>toggleNumber(num)\<close> passes to \<open>setSelectedNumbers\<close>:
  \<open>prev.includes(num) ? prev.filter(n => n !== num) : (prev.length < 5 ? [...prev, num] : prev)\<close>.
\<close>

definition toggleNumber :: "int \<Rightarrow> int list \<Rightarrow> int list" where
  "toggleNumber num prev =
     (if num \<in> set prev then filter (\<lambda>n. n \<noteq> num) prev
      else if length prev < 5 then prev @ [num]
      else prev)"

text \<open>A sequence of clicks on the number grid, applied left to right.\<close>

fun toggleNumbers :: "int list \<Rightarrow> int list \<Rightarrow> int list" where
  "toggleNumbers [] sel = sel"
| "toggleNumbers (num # nums) sel = toggleNumbers nums (toggleNumber num sel)"

subsection \<open>Props and wallet values seen by the list components\<close>

text \<open>
  \<open>PastWinners\<close> and \<open>ParticipantsList\<close> receive \<open>sharedDrawId\<close> and
  \<open>sharedSeriesIndex\<close> as props and read \<open>provider\<close> and \<open>chainId\<close> from
  \<open>useWallet\<close>. The provider is an opaque object or \<open>null\<close>: only its presence is kept.
\<close>

record view_props =
  sharedDrawId :: "int option"
  sharedSeriesIndex :: "int option"
  provider :: bool
  chainId :: "int option"

text \<open>A rejected promise or a thrown exception carries a message nobody inspects.\<close>

datatype js_error = Thrown string

subsection \<open>PastWinners\<close>

text \<open>
  The \<open>Winner\<close> type is declared in \<open>lib/lotteryContract\<close>; the fields are those the
  component reads and writes (\<open>winnerTransactionHash\<close> is its \<open>transactionHash\<close>).
\<close>

record picked =
  numbers :: "int list"
  lottoNumber :: int

record winner =
  winnerAddress :: string
  amountWon :: string
  drawId :: int
  timestamp :: int
  ticketNumbers :: "picked list"
  winningNumbers :: "int list option"
  winnerTransactionHash :: "string option"

record draw_info =
  completed :: bool

text \<open>
  The contract reads of \<open>lib/lotteryContract\<close>, applied to the provider and chain id
  already: what each call answers for a draw id and a series index.
\<close>

record contract_reads =
  getDrawInfo :: "int \<Rightarrow> int option \<Rightarrow> js_error + draw_info option"
  getTotalWinners :: "js_error + int"
  getDrawWinners :: "int \<Rightarrow> int option \<Rightarrow> js_error + winner list"
  getWinningNumbers :: "int \<Rightarrow> js_error + int list option"

record past_winners =
  winners :: "winner list"
  isLoading :: bool
  error :: "string option"
  isDrawCompleted :: bool
  totalWinnersCount :: int
  previousDrawId :: "int option"
  previousSeriesIndex :: "int option"

text \<open>The cells as \<open>useState\<close> initialises them.\<close>

definition initialPastWinners :: past_winners where
  "initialPastWinners =
     \<lparr>winners = [], isLoading = True, error = None, isDrawCompleted = False,
      totalWinnersCount = 0, previousDrawId = None, previousSeriesIndex = None\<rparr>"

text \<open>
  \<open>sharedDrawId === 1 && (sharedSeriesIndex === 0 || sharedSeriesIndex === undefined)\<close>,
  the test of every special case for the first draw of the Beginner series.
\<close>

definition isKnownDraw :: "int option \<Rightarrow> int option \<Rightarrow> bool" where
  "isKnownDraw drawIdProp seriesProp =
     (drawIdProp = Some 1 \<and> (seriesProp = Some 0 \<or> seriesProp = None))"

definition checkDrawCompletion :: "view_props \<Rightarrow> contract_reads \<Rightarrow> bool" where
  "checkDrawCompletion props reads =
     (if \<not> provider props \<or> \<not> truthy (chainId props) \<or> \<not> truthy (sharedDrawId props)
      then False
      else (case sharedDrawId props of
              None \<Rightarrow> False
            | Some d \<Rightarrow>
               (case getDrawInfo reads d (sharedSeriesIndex props) of
                  Inr None \<Rightarrow> isKnownDraw (sharedDrawId props) (sharedSeriesIndex props)
                | Inr (Some draw) \<Rightarrow> completed draw
                | Inl e \<Rightarrow> isKnownDraw (sharedDrawId props) (sharedSeriesIndex props))))"

definition fetchTotalWinners :: "view_props \<Rightarrow> contract_reads \<Rightarrow> past_winners \<Rightarrow> past_winners" where
  "fetchTotalWinners props reads st =
     (if \<not> provider props \<or> \<not> truthy (chainId props) then st
      else (case getTotalWinners reads of
              Inr totalWinners \<Rightarrow> st\<lparr>totalWinnersCount := totalWinners\<rparr>
            | Inl e \<Rightarrow> st))"

text \<open>
  The hardcoded winner; the active component and the backup file write the same literal.
  \<open>now\<close> is the value of \<open>Date.now()\<close>.
\<close>

definition fallbackWinner :: "int \<Rightarrow> winner" where
  "fallbackWinner now =
     \<lparr>winnerAddress = ''0x03C4bcC1599627e0f766069Ae70E40C62b5d6f1e'',
      amountWon = ''0.0000064'',
      drawId = 1,
      timestamp = now,
      ticketNumbers = [\<lparr>numbers = [1, 2, 3, 4, 5], lottoNumber = 8\<rparr>],
      winningNumbers = None,
      winnerTransactionHash = None\<rparr>"

text \<open>\<open>fetchedWinners.map(winner => ({...winner, winningNumbers}))\<close>\<close>

definition withWinningNumbers :: "int list \<Rightarrow> winner list \<Rightarrow> winner list" where
  "withWinningNumbers wn ws = map (\<lambda>w. w\<lparr>winningNumbers := Some wn\<rparr>) ws"

text \<open>
  \<open>fetchWinners\<close>, the asynchronous body of the load effect, run to completion. It is
  entered with a truthy draw id \<open>d\<close>, a provider and a chain id. No statement outside the
  inner \<open>try\<close> blocks can throw, so the outer \<open>catch\<close> has no branch here and
  \<open>setWinners\<close> is always reached.
\<close>

definition fetchWinners ::
  "view_props \<Rightarrow> contract_reads \<Rightarrow> int \<Rightarrow> int \<Rightarrow> past_winners \<Rightarrow> past_winners" where
  "fetchWinners props reads now d st =
     (let st1 = st\<lparr>isLoading := True, error := None\<rparr>;
          completed = checkDrawCompletion props reads;
          st2 = st1\<lparr>isDrawCompleted := completed\<rparr>;
          st3 = fetchTotalWinners props reads st2;
          fetched0 = [];
          fetched1 =
            (if isKnownDraw (Some d) (sharedSeriesIndex props)
             then (if length fetched0 = 0 then [fallbackWinner now] else fetched0)
             else fetched0);
          fetched2 =
            (case getDrawWinners reads d (sharedSeriesIndex props) of
               Inr contractWinners \<Rightarrow>
                 (if length contractWinners > 0 then contractWinners else fetched1)
             | Inl e \<Rightarrow> fetched1);
          fetched3 =
            (if length fetched2 > 0 \<and> completed
             then (case getWinningNumbers reads d of
                     Inr (Some wn) \<Rightarrow>
                       (if length wn > 0 then withWinningNumbers wn fetched2 else fetched2)
                   | Inr None \<Rightarrow> fetched2
                   | Inl e \<Rightarrow> fetched2)
             else fetched2)
      in st3\<lparr>winners := fetched3, isLoading := False\<rparr>)"




text \<open>
  \<open>refreshWinners\<close> of the active component. \<open>Promise.all\<close> rejects when one of the
  reads rejects; \<open>checkDrawCompletion\<close> never does.
\<close>

definition refreshWinners :: "view_props \<Rightarrow> contract_reads \<Rightarrow> past_winners \<Rightarrow> past_winners" where
  "refreshWinners props reads st =
     (let st1 = st\<lparr>isLoading := True, error := None\<rparr>
      in if \<not> provider props \<or> \<not> truthy (chainId props) \<or> \<not> truthy (sharedDrawId props)
         then st1\<lparr>isLoading := False,
                  error := Some ''Cannot refresh without blockchain connection''\<rparr>
         else (case sharedDrawId props of
                 None \<Rightarrow> st1
               | Some d \<Rightarrow>
                  (case (getDrawWinners reads d (sharedSeriesIndex props),
                         getWinningNumbers reads d) of
                     (Inr fetchedWinners, Inr winningNumbersRead) \<Rightarrow>
                       (let completed = checkDrawCompletion props reads;
                            st2 = st1\<lparr>isDrawCompleted := completed\<rparr>;
                            fetched1 =
                              (case winningNumbersRead of
                                 Some wn \<Rightarrow>
                                   (if length wn > 0 \<and> completed \<and> length fetchedWinners > 0
                                    then withWinningNumbers wn fetchedWinners
                                    else fetchedWinners)
                               | None \<Rightarrow> fetchedWinners)
                        in st2\<lparr>winners := fetched1, isLoading := False\<rparr>)
                   | _ \<Rightarrow>
                       st1\<lparr>error := Some ''Failed to refresh winner data. Please try again later.'',
                           isLoading := False\<rparr>)))"

text \<open>\<open>refreshWinners(forceReset)\<close> of \<open>backup/PastWinners.tsx.bak\<close>.\<close>

definition refreshWinners_backup ::
  "bool \<Rightarrow> view_props \<Rightarrow> contract_reads \<Rightarrow> int \<Rightarrow> past_winners \<Rightarrow> past_winners" where
  "refreshWinners_backup forceReset props reads now st =
     (let st0 = (if forceReset
                 then st\<lparr>winners := [], previousDrawId := None, previousSeriesIndex := None\<rparr>
                 else st);
          st1 = st0\<lparr>isLoading := True, error := None\<rparr>
      in if \<not> provider props \<or> \<not> truthy (chainId props) \<or> \<not> truthy (sharedDrawId props)
         then st1\<lparr>isLoading := False,
                  error := Some ''Cannot refresh without blockchain connection''\<rparr>
         else (case sharedDrawId props of
                 None \<Rightarrow> st1
               | Some d \<Rightarrow>
                  (case (getDrawWinners reads d (sharedSeriesIndex props),
                         getWinningNumbers reads d) of
                     (Inr fetchedWinners, Inr winningNumbersRead) \<Rightarrow>
                       (let completed = checkDrawCompletion props reads;
                            st2 = st1\<lparr>isDrawCompleted := completed\<rparr>;
                            fetched1 =
                              (if isKnownDraw (sharedDrawId props) (sharedSeriesIndex props) \<and>
                                  length fetchedWinners = 0
                               then [fallbackWinner now]
                               else fetchedWinners);
                            fetched2 =
                              (case winningNumbersRead of
                                 Some wn \<Rightarrow>
                                   (if length wn > 0 \<and> completed \<and> length fetched1 > 0
                                    then withWinningNumbers wn fetched1
                                    else fetched1)
                               | None \<Rightarrow> fetched1)
                        in st2\<lparr>winners := fetched2, isLoading := False\<rparr>)
                   | _ \<Rightarrow>
                       st1\<lparr>error := Some ''Failed to refresh winner data. Please try again later.'',
                           isLoading := False\<rparr>)))"

subsection \<open>ParticipantsList: the participants query\<close>

record ticket =
  walletAddress :: string
  ticket_numbers :: "int list"
  ticket_lottoNumber :: "int option"
  ticket_timestamp :: int
  ticketId :: string

record contractData =
  tickets :: "ticket list"
  participantCount :: int

text \<open>
  What the contract object answers. \<open>contract.tickets(drawId, i)\<close> gives the tuple
  \<open>[lottoNumber, buyer, buyTime, closed]\<close> or nothing; \<open>getTicketDetails\<close> gives an
  object whose \<open>numbers\<close> field may be missing.
\<close>

record ticketData =
  td_lottoNumber :: int
  td_buyer :: string
  td_buyTime :: int
  td_closed :: bool

record ticketDetails =
  details_numbers :: "int list option"

record lottery_contract =
  getTotalTicketsSold :: "int \<Rightarrow> js_error + int"
  contract_tickets :: "int \<Rightarrow> int \<Rightarrow> js_error + ticketData option"
  getTicketDetails :: "int \<Rightarrow> int \<Rightarrow> js_error + ticketDetails option"

text \<open>
  The decimal text a template literal gives an integral number: \<open>ticketId\<close> is
  \<open>`${sharedDrawId}-${i}`\<close>.
\<close>

definition digitChar :: "nat \<Rightarrow> char" where
  "digitChar k = ''0123456789'' ! (k mod 10)"

fun natDigits :: "nat \<Rightarrow> string \<Rightarrow> string" where
  "natDigits n acc =
     (if n < 10 then digitChar n # acc else natDigits (n div 10) (digitChar n # acc))"

definition numberText :: "int \<Rightarrow> string" where
  "numberText i = (if 0 \<le> i then natDigits (nat i) [] else CHR ''-'' # natDigits (nat (- i)) [])"

text \<open>The verified counts of the \<open>catch\<close> branch; \<open>participantCount\<close> starts at 0.\<close>

definition verifiedTicketCount :: "int option \<Rightarrow> int \<Rightarrow> int" where
  "verifiedTicketCount seriesIndex d =
     (if seriesIndex = Some 0 \<and> d = 1 then 8
      else if seriesIndex = Some 1 \<and> d = 2 then 6
      else if seriesIndex = Some 2 \<and> d = 1 then 5
      else if seriesIndex = Some 3 \<and> d = 1 then 7
      else if seriesIndex = Some 3 \<and> d = 2 then 4
      else if seriesIndex = Some 4 \<and> d = 1 then 6
      else if seriesIndex = Some 5 \<and> d = 1 then 9
      else 0)"

definition zeroAddress :: string where
  "zeroAddress = ''0x0000000000000000000000000000000000000000''"

text \<open>
  One iteration of the ticket scan, for ticket index \<open>i\<close>; \<open>now i\<close> is \<open>Date.now()\<close> in
  that iteration. A failed \<open>tickets\<close> read is logged and skipped, a failed
  \<open>getTicketDetails\<close> read skips the ticket with \<open>continue\<close>.
\<close>

definition scanTicket ::
  "lottery_contract \<Rightarrow> int \<Rightarrow> (nat \<Rightarrow> int) \<Rightarrow> ticket list \<Rightarrow> nat \<Rightarrow> ticket list" where
  "scanTicket contract d now acc i =
     (case contract_tickets contract d (int i) of
        Inl e \<Rightarrow> acc
      | Inr None \<Rightarrow> acc
      | Inr (Some td) \<Rightarrow>
          (if td_buyer td \<noteq> [] \<and> td_buyer td \<noteq> zeroAddress
           then (let buyTimeSeconds = td_buyTime td;
                     stamp = (if buyTimeSeconds > 0 then buyTimeSeconds * 1000
                              else now i - 3600000)
                 in case getTicketDetails contract d (int i) of
                      Inl detailsError \<Rightarrow> acc
                    | Inr fullTicketDetails \<Rightarrow>
                        acc @
                        [\<lparr>walletAddress = td_buyer td,
                          ticket_numbers =
                            (case fullTicketDetails of
                               None \<Rightarrow> []
                             | Some details \<Rightarrow>
                                 (case details_numbers details of
                                    None \<Rightarrow> []
                                  | Some ns \<Rightarrow> (if length ns > 0 then take 5 ns else []))),
                          ticket_lottoNumber = Some (td_lottoNumber td),
                          ticket_timestamp = stamp,
                          ticketId = numberText d @ ''-'' @ numberText (int i)\<rparr>])
           else acc))"

text \<open>\<open>for (let i = 0; i < participantCount; i++)\<close>\<close>

definition scanTickets ::
  "lottery_contract \<Rightarrow> int \<Rightarrow> (nat \<Rightarrow> int) \<Rightarrow> int \<Rightarrow> ticket list" where
  "scanTickets contract d now count = foldl (scanTicket contract d now) [] [0..<nat count]"

text \<open>
  The query function. \<open>lookup\<close> is the outcome of \<open>getLotteryContract(provider, chainId)\<close>:
  it may throw (the outer \<open>catch\<close>), give \<open>null\<close>, or give the contract.
\<close>

definition queryFn ::
  "view_props \<Rightarrow> (js_error + lottery_contract option) \<Rightarrow> (nat \<Rightarrow> int) \<Rightarrow> contractData" where
  "queryFn props lookup now =
     (if \<not> provider props \<or> \<not> truthy (chainId props) \<or> sharedDrawId props = None
      then \<lparr>tickets = [], participantCount = 0\<rparr>
      else (case sharedDrawId props of
              None \<Rightarrow> \<lparr>tickets = [], participantCount = 0\<rparr>
            | Some d \<Rightarrow>
               (case lookup of
                  Inl e \<Rightarrow> \<lparr>tickets = [], participantCount = 0\<rparr>
                | Inr None \<Rightarrow> \<lparr>tickets = [], participantCount = 0\<rparr>
                | Inr (Some contract) \<Rightarrow>
                    (let count =
                           (case getTotalTicketsSold contract d of
                              Inr sold \<Rightarrow> sold
                            | Inl e \<Rightarrow> verifiedTicketCount (sharedSeriesIndex props) d)
                     in \<lparr>tickets = scanTickets contract d now count,
                         participantCount = count\<rparr>))))"

subsection \<open>ParticipantsList: pagination\<close>

text \<open>The values the page-size \<open>Select\<close> offers; the cell starts at \<open>"10"\<close>.\<close>

definition pageSizeOptions :: "string list" where
  "pageSizeOptions = [''5'', ''10'', ''20'', ''50'']"

text \<open>
  \<open>parseInt\<close> on a non-empty string of decimal digits, which is all the \<open>Select\<close> can
  put in the cell. On any other string this function gives \<open>None\<close> and says nothing about
  JavaScript's answer.
\<close>

definition isDigit :: "char \<Rightarrow> bool" where
  "isDigit c = (c \<in> set ''0123456789'')"

definition digitValue :: "char \<Rightarrow> int" where
  "digitValue c = int (length (takeWhile (\<lambda>d. d \<noteq> c) ''0123456789''))"

definition parseInt :: "string \<Rightarrow> int option" where
  "parseInt s =
     (if s \<noteq> [] \<and> list_all isDigit s
      then Some (foldl (\<lambda>acc c. 10 * acc + digitValue c) 0 s)
      else None)"

text \<open>
  \<open>Math.ceil(a / b)\<close> for a count \<open>a\<close> and a positive integer \<open>b\<close>. Array lengths are
  below \<open>2^32\<close>, where the floating-point quotient rounds to the same integer.
\<close>

definition ceilDiv :: "int \<Rightarrow> int \<Rightarrow> int" where
  "ceilDiv a b = - ((- a) div b)"

text \<open>
  \<open>Array.prototype.slice(start, stop)\<close>: a negative bound counts from the end, and both
  bounds are clamped to the array.
\<close>

definition js_slice :: "'a list \<Rightarrow> int \<Rightarrow> int \<Rightarrow> 'a list" where
  "js_slice xs start stop =
     (let len = int (length xs);
          k = (if start < 0 then max (len + start) 0 else min start len);
          final = (if stop < 0 then max (len + stop) 0 else min stop len)
      in take (nat (final - k)) (drop (nat k) xs))"

text \<open>The page number of the \<open>i\<close>-th pagination link, before the validity test.\<close>

definition pageNumberAt :: "int \<Rightarrow> int \<Rightarrow> int \<Rightarrow> int" where
  "pageNumberAt currentPage pages i =
     (if pages \<le> 5 \<or> currentPage \<le> 3 then i + 1
      else if currentPage \<ge> pages - 2 then pages - 4 + i
      else currentPage - 2 + i)"

text \<open>
  The page numbers rendered as \<open>PaginationLink\<close>: up to five numbered links, then the
  last page after the ellipsis.
\<close>

definition pageLinkNumbers :: "int \<Rightarrow> int \<Rightarrow> int list" where
  "pageLinkNumbers currentPage pages =
     filter (\<lambda>pageNumber. pageNumber > 0 \<and> pageNumber \<le> pages)
       (map (\<lambda>i. pageNumberAt currentPage pages (int i)) [0..<nat (min 5 pages)]) @
     (if pages > 5 \<and> currentPage < pages - 2 then [pages] else [])"

text \<open>The \<open>onClick\<close> of \<open>PaginationPrevious\<close> and of \<open>PaginationNext\<close>.\<close>

definition goToPreviousPage :: "int \<Rightarrow> int" where
  "goToPreviousPage currentPage = max 1 (currentPage - 1)"

definition goToNextPage :: "int \<Rightarrow> int \<Rightarrow> int" where
  "goToNextPage pages currentPage = min pages (currentPage + 1)"

record participants_view =
  pageCount :: int
  startIndex :: int
  endIndex :: int
  currentTickets :: "ticket list"
  pageLinks :: "int list"

text \<open>
  The pagination calculations of \<open>renderParticipantsView\<close>; \<open>None\<close> where \<open>parseInt\<close>
  is not modelled or the page size is 0 (the quotient is then no integer).
\<close>

definition renderParticipantsView ::
  "ticket list \<Rightarrow> int \<Rightarrow> string \<Rightarrow> participants_view option" where
  "renderParticipantsView ticketsToRender currentPage pageSize =
     (case parseInt pageSize of
        None \<Rightarrow> None
      | Some perPage \<Rightarrow>
          (if perPage = 0 then None
           else (let totalTickets = int (length ticketsToRender);
                     pages = max 1 (ceilDiv totalTickets perPage);
                     start = (currentPage - 1) * perPage;
                     stop = start + perPage
                 in Some \<lparr>pageCount = pages,
                          startIndex = start,
                          endIndex = stop,
                          currentTickets = js_slice ticketsToRender start stop,
                          pageLinks = pageLinkNumbers currentPage pages\<rparr>)))"

subsection \<open>Home: the shared selection\<close>

text \<open>
  The selection held by \<open>useLotteryData\<close>, read by \<open>Home\<close> and by \<open>BuyTickets\<close>.
\<close>

record lottery_selection =
  selectedSeriesIndex :: "int option"
  selectedDrawId :: "int option"

text \<open>
  The hook itself is not among the sources. \<open>Home\<close> uses three things of it, taken as
  parameters over the hook's state \<open>'h\<close>: the selection it currently reports, and its two
  setters, which \<open>Home\<close> names \<open>setLotteryDataSeriesIndex\<close> and \<open>setLotteryDataDrawId\<close>.
\<close>

record 'h lottery_hook =
  selectionOf :: "'h \<Rightarrow> lottery_selection"
  setLotteryDataSeriesIndex :: "int option \<Rightarrow> 'h \<Rightarrow> 'h"
  setLotteryDataDrawId :: "int option \<Rightarrow> 'h \<Rightarrow> 'h"

text \<open>
  \<open>homeSeriesIndex\<close> and \<open>homeDrawId\<close> are the page's own cells, \<open>lotteryData\<close> is the
  state of \<open>useLotteryData\<close>, and \<open>refetches\<close> counts the calls of
  \<open>refetchDrawParticipants\<close>.
\<close>

record 'h home =
  homeSeriesIndex :: "int option"
  homeDrawId :: "int option"
  refreshTrigger :: int
  lotteryData :: 'h
  refetches :: nat

text \<open>React's \<open>SetStateAction\<close>: a value, or a function of the previous value.\<close>

datatype 'a SetStateAction = Value 'a | Updater "'a \<Rightarrow> 'a"

definition handleHomeSeriesIndexChange ::
  "'h lottery_hook \<Rightarrow> int option SetStateAction \<Rightarrow> 'h home \<Rightarrow> 'h home" where
  "handleHomeSeriesIndexChange hook val st =
     (let newSeriesIndex = (case val of Updater f \<Rightarrow> f (homeSeriesIndex st) | Value v \<Rightarrow> v);
          defaultDrawId =
            (if newSeriesIndex = Some 0 then 1
             else if newSeriesIndex = Some 1 then 2
             else if newSeriesIndex = Some 2 then 3
             else if newSeriesIndex = Some 3 then 4
             else if newSeriesIndex = Some 4 then 5
             else if newSeriesIndex = Some 5 then 6
             else 1);
          st1 = st\<lparr>homeSeriesIndex := newSeriesIndex\<rparr>;
          st2 = st1\<lparr>homeDrawId := Some defaultDrawId\<rparr>;
          st3 = st2\<lparr>lotteryData := setLotteryDataSeriesIndex hook newSeriesIndex (lotteryData st2)\<rparr>;
          st4 = st3\<lparr>lotteryData := setLotteryDataDrawId hook (Some defaultDrawId) (lotteryData st3)\<rparr>;
          st5 = st4\<lparr>refreshTrigger := refreshTrigger st4 + 1\<rparr>
      in st5\<lparr>refetches := Suc (refetches st5)\<rparr>)"

subsection \<open>BuyTickets: the purchase flow\<close>

record timeLeft =
  days :: int
  hours :: int
  minutes :: int
  seconds :: int

text \<open>
  What the hooks give the component at a render: \<open>isConnected\<close> of \<open>useWallet\<close>, and
  of \<open>useLotteryData\<close> the answer of \<open>isDrawAvailable()\<close>, \<open>timeRemaining\<close> and the
  selection.
\<close>

record buy_env =
  isConnected :: bool
  drawAvailable :: bool
  timeRemaining :: "timeLeft option"
  selection :: lottery_selection

record buy_tickets =
  selectedNumbers :: "int list"
  selectedLottoNumber :: "int option"
  showWalletModal :: bool
  showBuyConfirmModal :: bool
  showReconfirmModal :: bool
  showPendingModal :: bool
  showSuccessModal :: bool
  transactionHash :: string

text \<open>\<open>DEFAULT_SELECTED_NUMBERS\<close>, \<open>DEFAULT_LOTTO_NUMBER\<close> and the initial cells.\<close>

definition DEFAULT_SELECTED_NUMBERS :: "int list" where
  "DEFAULT_SELECTED_NUMBERS = [7, 14, 21, 42, 63]"

definition DEFAULT_LOTTO_NUMBER :: int where
  "DEFAULT_LOTTO_NUMBER = 17"

definition initialBuyTickets :: buy_tickets where
  "initialBuyTickets =
     \<lparr>selectedNumbers = DEFAULT_SELECTED_NUMBERS,
      selectedLottoNumber = Some DEFAULT_LOTTO_NUMBER,
      showWalletModal = False, showBuyConfirmModal = False, showReconfirmModal = False,
      showPendingModal = False, showSuccessModal = False, transactionHash = []\<rparr>"

text \<open>
  What a handler does besides writing cells: a toast (title, description), or the call
  \<open>buyTicket(selectedNumbers, selectedLottoNumber, selectedSeriesIndex, selectedDrawId)\<close>.
\<close>

datatype effect =
  Toast string string
| BuyTicket "int list" int "int option" "int option"

record purchase_result =
  success :: bool
  txHash :: "string option"

definition toggleLottoNumber :: "int \<Rightarrow> int option \<Rightarrow> int option" where
  "toggleLottoNumber num prev = (if prev = Some num then None else Some num)"

definition isTimeRemainingZero :: "buy_env \<Rightarrow> bool" where
  "isTimeRemainingZero env =
     (case timeRemaining env of
        None \<Rightarrow> False
      | Some t \<Rightarrow> days t = 0 \<and> hours t = 0 \<and> minutes t = 0 \<and> seconds t = 0)"

definition noDrawsToast :: effect where
  "noDrawsToast =
     Toast ''Cannot Purchase Ticket'' ''No lottery draws are available for the selected series.''"

definition drawClosedToast :: effect where
  "drawClosedToast =
     Toast ''Draw Closed''
       ''The time for this draw has expired. Please select a different draw.''"

definition handleBuyClick :: "buy_env \<Rightarrow> buy_tickets \<Rightarrow> buy_tickets \<times> effect list" where
  "handleBuyClick env st =
     (if \<not> isConnected env then (st\<lparr>showWalletModal := True\<rparr>, [])
      else if length (selectedNumbers st) \<noteq> 5 \<or> selectedLottoNumber st = None then (st, [])
      else if \<not> drawAvailable env then (st, [noDrawsToast])
      else if isTimeRemainingZero env then (st, [drawClosedToast])
      else (st\<lparr>showBuyConfirmModal := True\<rparr>, []))"

definition handleInitialConfirm :: "buy_env \<Rightarrow> buy_tickets \<Rightarrow> buy_tickets \<times> effect list" where
  "handleInitialConfirm env st =
     (if length (selectedNumbers st) \<noteq> 5 \<or> selectedLottoNumber st = None then (st, [])
      else if \<not> drawAvailable env then (st\<lparr>showBuyConfirmModal := False\<rparr>, [noDrawsToast])
      else if isTimeRemainingZero env
      then (st\<lparr>showBuyConfirmModal := False\<rparr>, [drawClosedToast])
      else (st\<lparr>showBuyConfirmModal := False, showReconfirmModal := True\<rparr>, []))"

text \<open>
  \<open>handleConfirmPurchase\<close>, with \<open>outcome\<close> the settlement of the awaited \<open>buyTicket\<close>.
  When the promise rejects, the statements after the \<open>await\<close> do not run.
\<close>

definition handleConfirmPurchase ::
  "buy_env \<Rightarrow> (js_error + purchase_result) \<Rightarrow> buy_tickets \<Rightarrow> buy_tickets \<times> effect list" where
  "handleConfirmPurchase env outcome st =
     (case selectedLottoNumber st of
        None \<Rightarrow> (st, [])
      | Some lotto \<Rightarrow>
          (if length (selectedNumbers st) \<noteq> 5 then (st, [])
           else if \<not> drawAvailable env then (st\<lparr>showReconfirmModal := False\<rparr>, [noDrawsToast])
           else if isTimeRemainingZero env
           then (st\<lparr>showReconfirmModal := False\<rparr>, [drawClosedToast])
           else (let st1 = st\<lparr>showReconfirmModal := False, showPendingModal := True\<rparr>;
                     call = BuyTicket (selectedNumbers st) lotto
                              (selectedSeriesIndex (selection env)) (selectedDrawId (selection env))
                 in case outcome of
                      Inl e \<Rightarrow> (st1, [call])
                    | Inr result \<Rightarrow>
                        (let st2 = st1\<lparr>showPendingModal := False\<rparr>
                         in case txHash result of
                              Some h \<Rightarrow>
                                (if success result \<and> h \<noteq> []
                                 then (st2\<lparr>transactionHash := h, showSuccessModal := True\<rparr>,
                                       [call])
                                 else (st2, [call]))
                            | None \<Rightarrow> (st2, [call])))))"

text \<open>
  The flow as the user and the hooks drive it. The Buy button runs \<open>handleBuyClick\<close>
  (while the wallet is not connected the button shown in its place opens the wallet modal,
  which is the first branch of \<open>handleBuyClick\<close>); the confirm button of a modal can be
  pressed only while the modal is open; \<open>HooksChanged\<close> is a re-render with new hook
  values, such as the wallet connecting or disconnecting.
\<close>

datatype buy_event =
  ClickBuy
| ConfirmInitial
| ConfirmFinal "js_error + purchase_result"
| PickNumber int
| PickLottoNumber int
| HooksChanged buy_env

fun step :: "buy_env \<times> buy_tickets \<Rightarrow> buy_event \<Rightarrow> (buy_env \<times> buy_tickets) \<times> effect list" where
  "step (env, st) ClickBuy =
     (let (st', effects) = handleBuyClick env st in ((env, st'), effects))"
| "step (env, st) ConfirmInitial =
     (if showBuyConfirmModal st
      then (let (st', effects) = handleInitialConfirm env st in ((env, st'), effects))
      else ((env, st), []))"
| "step (env, st) (ConfirmFinal outcome) =
     (if showReconfirmModal st
      then (let (st', effects) = handleConfirmPurchase env outcome st in ((env, st'), effects))
      else ((env, st), []))"
| "step (env, st) (PickNumber num) =
     ((env, st\<lparr>selectedNumbers := toggleNumber num (selectedNumbers st)\<rparr>), [])"
| "step (env, st) (PickLottoNumber num) =
     ((env, st\<lparr>selectedLottoNumber := toggleLottoNumber num (selectedLottoNumber st)\<rparr>), [])"
| "step (env, st) (HooksChanged env') = ((env', st), [])"

fun run :: "buy_env \<times> buy_tickets \<Rightarrow> buy_event list \<Rightarrow> (buy_env \<times> buy_tickets) \<times> effect list" where
  "run s [] = (s, [])"
| "run s (ev # evs) =
     (let (s1, effects1) = step s ev; (s2, effects2) = run s1 evs
      in (s2, effects1 @ effects2))"

subsection \<open>Sample inputs\<close>

text \<open>
  A connected wallet on Sepolia looking at draw 1 of series 0, and two contracts: one
  whose winners read rejects and one whose winners read answers the empty list. Both know
  no draw info for the draw and report six winning numbers.
\<close>

definition sepoliaDraw1 :: view_props where
  "sepoliaDraw1 =
     \<lparr>sharedDrawId = Some 1, sharedSeriesIndex = Some 0, provider = True,
      chainId = Some 11155111\<rparr>"

definition rejectingReads :: contract_reads where
  "rejectingReads =
     \<lparr>getDrawInfo = (\<lambda>d s. Inr None),
      getTotalWinners = Inr 3,
      getDrawWinners = (\<lambda>d s. Inl (Thrown ''call revert exception'')),
      getWinningNumbers = (\<lambda>d. Inr (Some [4, 11, 23, 35, 60, 8]))\<rparr>"

definition emptyReads :: contract_reads where
  "emptyReads =
     \<lparr>getDrawInfo = (\<lambda>d s. Inr (Some \<lparr>completed = True\<rparr>)),
      getTotalWinners = Inr 3,
      getDrawWinners = (\<lambda>d s. Inr []),
      getWinningNumbers = (\<lambda>d. Inr (Some [4, 11, 23, 35, 60, 8]))\<rparr>"

text \<open>Seven tickets of one wallet, numbered 0 to 6 in \<open>ticketId\<close>.\<close>

definition sevenTickets :: "ticket list" where
  "sevenTickets =
     map (\<lambda>i. \<lparr>walletAddress = ''0x494B917114173eD0636A7B18a7DC1D007fc289AF'',
               ticket_numbers = [11, 21, 31, 41, 51], ticket_lottoNumber = Some 8,
               ticket_timestamp = 1700000000000, ticketId = numberText (int i)\<rparr>) [0..<7]"

text \<open>
  A contract whose ticket count read reverts; it holds one ticket, at index 0 of every
  draw, and no details for it.
\<close>

definition revertingContract :: lottery_contract where
  "revertingContract =
     \<lparr>getTotalTicketsSold = (\<lambda>d. Inl (Thrown ''call revert exception'')),
      contract_tickets = (\<lambda>d i. if i = 0
         then Inr (Some \<lparr>td_lottoNumber = 8,
                          td_buyer = ''0x494B917114173eD0636A7B18a7DC1D007fc289AF'',
                          td_buyTime = 1700000000, td_closed = False\<rparr>)
         else Inr None),
      getTicketDetails = (\<lambda>d i. Inr None)\<rparr>"

text \<open>
  A hook whose state is the selection itself and whose setters are plain \<open>useState\<close>
  setters, and the page as \<open>useState\<close> initialises it (series 0, draw 1) over that hook
  with nothing selected yet.
\<close>

definition plainHook :: "lottery_selection lottery_hook" where
  "plainHook =
     \<lparr>selectionOf = (\<lambda>h. h),
      setLotteryDataSeriesIndex = (\<lambda>v h. h\<lparr>selectedSeriesIndex := v\<rparr>),
      setLotteryDataDrawId = (\<lambda>v h. h\<lparr>selectedDrawId := v\<rparr>)\<rparr>"

definition initialHome :: "lottery_selection home" where
  "initialHome =
     \<lparr>homeSeriesIndex = Some 0, homeDrawId = Some 1, refreshTrigger = 0,
      lotteryData = \<lparr>selectedSeriesIndex = None, selectedDrawId = None\<rparr>, refetches = 0\<rparr>"

text \<open>
  A connected wallet with an open draw of series 0, and the same hooks after the wallet
  has disconnected.
\<close>

definition connectedEnv :: buy_env where
  "connectedEnv =
     \<lparr>isConnected = True, drawAvailable = True,
      timeRemaining = Some \<lparr>days = 0, hours = 5, minutes = 30, seconds = 0\<rparr>,
      selection = \<lparr>selectedSeriesIndex = Some 0, selectedDrawId = Some 1\<rparr>\<rparr>"

definition disconnectedEnv :: buy_env where
  "disconnectedEnv = connectedEnv\<lparr>isConnected := False\<rparr>"

text \<open>One of the two confirmation modals is open.\<close>

definition modalOpen :: "buy_env \<times> buy_tickets \<Rightarrow> bool" where
  "modalOpen s = (showBuyConfirmModal (snd s) \<or> showReconfirmModal (snd s))"

text \<open>
  The user opens Buy and confirms once with the wallet connected, then the wallet
  disconnects while the second confirmation is open.
\<close>

definition disconnectDuringConfirm :: "buy_event list" where
  "disconnectDuringConfirm = [ClickBuy, ConfirmInitial, HooksChanged disconnectedEnv]"

section \<open>Properties\<close>

subsection \<open>Series tables\<close>

text \<open>
  C6. For the series indices 0 to 5, \<open>getSeriesTitle\<close> and \<open>getTicketPrice\<close> return the
  fixed name and ticket price of the series; every other index (and \<open>undefined\<close>) yields
  "Lottery Series" and "0.0001".
\<close>

theorem series_title_and_price:
  "getSeriesTitle (Some 0) = ''Beginner Series'' \<and> getTicketPrice (Some 0) = ''0.0001'' \<and>
   getSeriesTitle (Some 1) = ''Intermediate Series'' \<and> getTicketPrice (Some 1) = ''0.0002'' \<and>
   getSeriesTitle (Some 2) = ''Monthly Mega Series'' \<and> getTicketPrice (Some 2) = ''0.0005'' \<and>
   getSeriesTitle (Some 3) = ''Weekly Express Series'' \<and> getTicketPrice (Some 3) = ''0.0001'' \<and>
   getSeriesTitle (Some 4) = ''Quarterly Rewards Series'' \<and> getTicketPrice (Some 4) = ''0.0008'' \<and>
   getSeriesTitle (Some 5) = ''Annual Championship Series'' \<and> getTicketPrice (Some 5) = ''0.001'' \<and>
   (idx \<notin> Some ` {0..5} \<longrightarrow>
      getSeriesTitle idx = ''Lottery Series'' \<and> getTicketPrice idx = ''0.0001'')"
proof -
  have fixed: "getSeriesTitle (Some 0) = ''Beginner Series'' \<and> getTicketPrice (Some 0) = ''0.0001'' \<and>
   getSeriesTitle (Some 1) = ''Intermediate Series'' \<and> getTicketPrice (Some 1) = ''0.0002'' \<and>
   getSeriesTitle (Some 2) = ''Monthly Mega Series'' \<and> getTicketPrice (Some 2) = ''0.0005'' \<and>
   getSeriesTitle (Some 3) = ''Weekly Express Series'' \<and> getTicketPrice (Some 3) = ''0.0001'' \<and>
   getSeriesTitle (Some 4) = ''Quarterly Rewards Series'' \<and> getTicketPrice (Some 4) = ''0.0008'' \<and>
   getSeriesTitle (Some 5) = ''Annual Championship Series'' \<and> getTicketPrice (Some 5) = ''0.001''"
    by (simp add: getSeriesTitle_def getTicketPrice_def)
  have other: "getSeriesTitle idx = ''Lottery Series'' \<and> getTicketPrice idx = ''0.0001''"
    if "idx \<notin> Some ` {0..5}"
  proof -
    have "idx \<noteq> Some 0" "idx \<noteq> Some 1" "idx \<noteq> Some 2" "idx \<noteq> Some 3" "idx \<noteq> Some 4"
      "idx \<noteq> Some 5"
      using that by auto
    then show ?thesis
      by (simp add: getSeriesTitle_def getTicketPrice_def)
  qed
  from fixed other show ?thesis by blast
qed

theorem series_title_and_price_witness:
  "Some 7 \<notin> Some ` {0..5::int} \<and>
   getSeriesTitle (Some 7) = ''Lottery Series'' \<and> getTicketPrice (Some 7) = ''0.0001'' \<and>
   getSeriesTitle (Some 2) = ''Monthly Mega Series'' \<and> getTicketPrice (Some 2) = ''0.0005''"
proof -
  have out: "Some 7 \<notin> Some ` {0..5::int}" by auto
  show ?thesis using out series_title_and_price [of "Some 7"] by blast
qed

subsection \<open>Home: one selection in both states\<close>

text \<open>
  C5. After \<open>handleHomeSeriesIndexChange\<close> with the new series index \<open>n\<close>, the page's
  cells and the lottery-data state hold the same selection: both series indices are \<open>n\<close>
  and both draw ids are the default draw of the series, \<open>n + 1\<close> for \<open>n\<close> in 0..5 and
  \<open>1\<close> for any other \<open>n\<close>. The hook's setters are taken to store what they are given:
  each one is read back through the selection, and setting the draw id keeps the series
  index.
\<close>

theorem home_series_change_consistent:
  assumes "\<And>v h. selectedSeriesIndex (selectionOf hook (setLotteryDataSeriesIndex hook v h)) = v"
    and "\<And>v h. selectedDrawId (selectionOf hook (setLotteryDataDrawId hook v h)) = v"
    and "\<And>v h. selectedSeriesIndex (selectionOf hook (setLotteryDataDrawId hook v h))
                 = selectedSeriesIndex (selectionOf hook h)"
  shows "homeSeriesIndex (handleHomeSeriesIndexChange hook (Value (Some n)) st) = Some n \<and>
   selectedSeriesIndex
     (selectionOf hook (lotteryData (handleHomeSeriesIndexChange hook (Value (Some n)) st)))
     = Some n \<and>
   homeDrawId (handleHomeSeriesIndexChange hook (Value (Some n)) st)
     = Some (if 0 \<le> n \<and> n \<le> 5 then n + 1 else 1) \<and>
   selectedDrawId
     (selectionOf hook (lotteryData (handleHomeSeriesIndexChange hook (Value (Some n)) st)))
     = Some (if 0 \<le> n \<and> n \<le> 5 then n + 1 else 1)"
proof -
  have d: "(if n = 0 then 1 else if n = 1 then 2 else if n = 2 then 3 else if n = 3 then 4
            else if n = 4 then 5 else if n = 5 then 6 else (1::int))
           = (if 0 \<le> n \<and> n \<le> 5 then n + 1 else 1)"
    by auto
  show ?thesis
    unfolding handleHomeSeriesIndexChange_def Let_def
    using d by (simp add: assms)
qed

theorem home_series_change_consistent_witness:
  "homeDrawId (handleHomeSeriesIndexChange plainHook (Value (Some 3)) initialHome) = Some 4 \<and>
   selectedDrawId (selectionOf plainHook
      (lotteryData (handleHomeSeriesIndexChange plainHook (Value (Some 3)) initialHome)))
     = Some 4 \<and>
   homeSeriesIndex (handleHomeSeriesIndexChange plainHook (Value (Some 3)) initialHome)
     = Some 3 \<and>
   selectedSeriesIndex (selectionOf plainHook
      (lotteryData (handleHomeSeriesIndexChange plainHook (Value (Some 3)) initialHome)))
     = Some 3 \<and>
   homeDrawId (handleHomeSeriesIndexChange plainHook (Value (Some 9)) initialHome) = Some 1 \<and>
   selectedDrawId (selectionOf plainHook
      (lotteryData (handleHomeSeriesIndexChange plainHook (Value (Some 9)) initialHome)))
     = Some 1"
proof -
  have laws:
    "\<And>v h. selectedSeriesIndex (selectionOf plainHook (setLotteryDataSeriesIndex plainHook v h)) = v"
    "\<And>v h. selectedDrawId (selectionOf plainHook (setLotteryDataDrawId plainHook v h)) = v"
    "\<And>v h. selectedSeriesIndex (selectionOf plainHook (setLotteryDataDrawId plainHook v h))
                 = selectedSeriesIndex (selectionOf plainHook h)"
    by (simp_all add: plainHook_def)
  from home_series_change_consistent [OF laws, of 3 initialHome]
    home_series_change_consistent [OF laws, of 9 initialHome]
  show ?thesis by simp
qed

subsection \<open>PastWinners: the change guard\<close>







subsection \<open>PastWinners: the hardcoded winner\<close>

text \<open>
  C1. In \<open>fetchWinners\<close> for draw 1 with series index 0 or undefined: when
  \<open>getDrawWinners\<close> answers the empty list or throws, the winners state becomes exactly
  one winner, the hardcoded one (address \<open>0x03C4...6f1e\<close>, amount \<open>0.0000064\<close>, draw 1),
  which differs from the literal at most in the winning numbers attached afterwards; when
  \<open>getDrawWinners\<close> answers a non-empty list, the state becomes that list, again with
  at most the winning numbers attached.
\<close>

theorem fetchWinners_fallback:
  assumes "sharedSeriesIndex props = Some 0 \<or> sharedSeriesIndex props = None"
  shows "(getDrawWinners reads 1 (sharedSeriesIndex props) = Inr [] \<or>
          (\<exists>e. getDrawWinners reads 1 (sharedSeriesIndex props) = Inl e)
          \<longrightarrow> (\<exists>w. winners (fetchWinners props reads now 1 st) = [w] \<and>
                   w\<lparr>winningNumbers := None\<rparr> = fallbackWinner now \<and>
                   winnerAddress w = ''0x03C4bcC1599627e0f766069Ae70E40C62b5d6f1e'' \<and>
                   amountWon w = ''0.0000064'' \<and> drawId w = 1)) \<and>
         (\<forall>contractWinners.
            getDrawWinners reads 1 (sharedSeriesIndex props) = Inr contractWinners \<and>
            contractWinners \<noteq> []
            \<longrightarrow> winners (fetchWinners props reads now 1 st) = contractWinners \<or>
                (\<exists>wn. winners (fetchWinners props reads now 1 st)
                         = withWinningNumbers wn contractWinners))"
proof (intro conjI impI allI)
  assume none: "getDrawWinners reads 1 (sharedSeriesIndex props) = Inr [] \<or>
          (\<exists>e. getDrawWinners reads 1 (sharedSeriesIndex props) = Inl e)"
  have known: "isKnownDraw (Some 1) (sharedSeriesIndex props)"
    using assms by (simp add: isKnownDraw_def)
  have "winners (fetchWinners props reads now 1 st) = [fallbackWinner now] \<or>
        (\<exists>wn. winners (fetchWinners props reads now 1 st)
                 = [fallbackWinner now\<lparr>winningNumbers := Some wn\<rparr>])"
    using none known
    by (auto simp: fetchWinners_def Let_def withWinningNumbers_def
        split: sum.splits option.splits)
  then show "\<exists>w. winners (fetchWinners props reads now 1 st) = [w] \<and>
                   w\<lparr>winningNumbers := None\<rparr> = fallbackWinner now \<and>
                   winnerAddress w = ''0x03C4bcC1599627e0f766069Ae70E40C62b5d6f1e'' \<and>
                   amountWon w = ''0.0000064'' \<and> drawId w = 1"
    by (auto simp: fallbackWinner_def)
next
  fix contractWinners
  assume "getDrawWinners reads 1 (sharedSeriesIndex props) = Inr contractWinners \<and>
            contractWinners \<noteq> []"
  then show "winners (fetchWinners props reads now 1 st) = contractWinners \<or>
                (\<exists>wn. winners (fetchWinners props reads now 1 st)
                         = withWinningNumbers wn contractWinners)"
    by (auto simp: fetchWinners_def Let_def split: sum.splits option.splits)
qed

theorem fetchWinners_fallback_witness:
  "(sharedSeriesIndex sepoliaDraw1 = Some 0 \<or> sharedSeriesIndex sepoliaDraw1 = None) \<and>
   (\<exists>e. getDrawWinners rejectingReads 1 (sharedSeriesIndex sepoliaDraw1) = Inl e) \<and>
   winners (fetchWinners sepoliaDraw1 rejectingReads 1700000000000 1 initialPastWinners)
     = [fallbackWinner 1700000000000\<lparr>winningNumbers := Some [4, 11, 23, 35, 60, 8]\<rparr>] \<and>
   (\<exists>w. winners (fetchWinners sepoliaDraw1 rejectingReads 1700000000000 1 initialPastWinners)
           = [w] \<and>
        winnerAddress w = ''0x03C4bcC1599627e0f766069Ae70E40C62b5d6f1e'' \<and>
        amountWon w = ''0.0000064'' \<and> drawId w = 1)"
proof -
  have series: "sharedSeriesIndex sepoliaDraw1 = Some 0 \<or> sharedSeriesIndex sepoliaDraw1 = None"
    by (simp add: sepoliaDraw1_def)
  have throws: "\<exists>e. getDrawWinners rejectingReads 1 (sharedSeriesIndex sepoliaDraw1) = Inl e"
    by (simp add: rejectingReads_def)
  have run: "winners (fetchWinners sepoliaDraw1 rejectingReads 1700000000000 1 initialPastWinners)
     = [fallbackWinner 1700000000000\<lparr>winningNumbers := Some [4, 11, 23, 35, 60, 8]\<rparr>]"
    by (simp add: fetchWinners_def Let_def checkDrawCompletion_def isKnownDraw_def truthy_def
        withWinningNumbers_def sepoliaDraw1_def rejectingReads_def)
  from fetchWinners_fallback [OF series, of rejectingReads 1700000000000 initialPastWinners] throws
  have "\<exists>w. winners (fetchWinners sepoliaDraw1 rejectingReads 1700000000000 1 initialPastWinners)
           = [w] \<and>
        winnerAddress w = ''0x03C4bcC1599627e0f766069Ae70E40C62b5d6f1e'' \<and>
        amountWon w = ''0.0000064'' \<and> drawId w = 1"
    by blast
  with series throws run show ?thesis by blast
qed

subsection \<open>PastWinners: the backup file refreshes differently\<close>

lemma refreshWinners_empty:
  assumes "provider props" and "truthy (chainId props)" and "sharedDrawId props = Some 1"
    and "getDrawWinners reads 1 (sharedSeriesIndex props) = Inr []"
    and "getWinningNumbers reads 1 = Inr wnr"
  shows "winners (refreshWinners props reads st) = []"
  using assms
  by (simp add: refreshWinners_def Let_def truthy_def split: option.splits)

lemma refreshWinners_backup_fallback:
  assumes "provider props" and "truthy (chainId props)" and "sharedDrawId props = Some 1"
    and "sharedSeriesIndex props = Some 0 \<or> sharedSeriesIndex props = None"
    and "getDrawWinners reads 1 (sharedSeriesIndex props) = Inr []"
    and "getWinningNumbers reads 1 = Inr wnr"
  shows "winners (refreshWinners_backup forceReset props reads now st) = [fallbackWinner now] \<or>
         (\<exists>wn. winners (refreshWinners_backup forceReset props reads now st)
                  = [fallbackWinner now\<lparr>winningNumbers := Some wn\<rparr>])"
proof -
  have known: "isKnownDraw (sharedDrawId props) (sharedSeriesIndex props)"
    using assms(3,4) by (simp add: isKnownDraw_def)
  show ?thesis
    using assms(1,2,3,5,6) known
    by (auto simp: refreshWinners_backup_def Let_def truthy_def withWinningNumbers_def
        split: option.splits)
qed

text \<open>
  C2. \<open>refreshWinners\<close> of the backup file is not equivalent to \<open>refreshWinners\<close> of the
  active component: for draw 1 with series index 0 or undefined, when both reads of the
  refresh resolve and the contract answers the empty winners list, the active version
  sets the winners state to the empty list and the backup version sets it to the
  hardcoded winner.
\<close>

theorem refreshWinners_backup_differs:
  assumes "provider props" and "truthy (chainId props)" and "sharedDrawId props = Some 1"
    and "sharedSeriesIndex props = Some 0 \<or> sharedSeriesIndex props = None"
    and "getDrawWinners reads 1 (sharedSeriesIndex props) = Inr []"
    and "getWinningNumbers reads 1 = Inr wnr"
  shows "winners (refreshWinners props reads st) = [] \<and>
         (\<exists>w. winners (refreshWinners_backup forceReset props reads now st) = [w] \<and>
              w\<lparr>winningNumbers := None\<rparr> = fallbackWinner now) \<and>
         refreshWinners_backup forceReset props reads now st \<noteq> refreshWinners props reads st"
proof -
  have active: "winners (refreshWinners props reads st) = []"
    using assms(1,2,3,5,6) by (rule refreshWinners_empty)
  have "winners (refreshWinners_backup forceReset props reads now st) = [fallbackWinner now] \<or>
         (\<exists>wn. winners (refreshWinners_backup forceReset props reads now st)
                  = [fallbackWinner now\<lparr>winningNumbers := Some wn\<rparr>])"
    using assms by (rule refreshWinners_backup_fallback)
  then have backup: "\<exists>w. winners (refreshWinners_backup forceReset props reads now st) = [w] \<and>
              w\<lparr>winningNumbers := None\<rparr> = fallbackWinner now"
    by (auto simp: fallbackWinner_def)
  from active backup
  have "winners (refreshWinners_backup forceReset props reads now st)
          \<noteq> winners (refreshWinners props reads st)"
    by auto
  then have "refreshWinners_backup forceReset props reads now st \<noteq> refreshWinners props reads st"
    by auto
  with active backup show ?thesis by blast
qed

theorem refreshWinners_backup_differs_witness:
  "provider sepoliaDraw1 \<and> truthy (chainId sepoliaDraw1) \<and> sharedDrawId sepoliaDraw1 = Some 1 \<and>
   getDrawWinners emptyReads 1 (sharedSeriesIndex sepoliaDraw1) = Inr [] \<and>
   checkDrawCompletion sepoliaDraw1 emptyReads \<and>
   winners (refreshWinners sepoliaDraw1 emptyReads initialPastWinners) = [] \<and>
   winners (refreshWinners_backup False sepoliaDraw1 emptyReads 1700000000000 initialPastWinners)
     = [fallbackWinner 1700000000000\<lparr>winningNumbers := Some [4, 11, 23, 35, 60, 8]\<rparr>] \<and>
   refreshWinners_backup False sepoliaDraw1 emptyReads 1700000000000 initialPastWinners
     \<noteq> refreshWinners sepoliaDraw1 emptyReads initialPastWinners"
proof -
  have h: "provider sepoliaDraw1" "truthy (chainId sepoliaDraw1)"
    "sharedDrawId sepoliaDraw1 = Some 1"
    "sharedSeriesIndex sepoliaDraw1 = Some 0 \<or> sharedSeriesIndex sepoliaDraw1 = None"
    "getDrawWinners emptyReads 1 (sharedSeriesIndex sepoliaDraw1) = Inr []"
    "getWinningNumbers emptyReads 1 = Inr (Some [4, 11, 23, 35, 60, 8])"
    by (simp_all add: sepoliaDraw1_def emptyReads_def truthy_def)
  have complete: "checkDrawCompletion sepoliaDraw1 emptyReads"
    by (simp add: checkDrawCompletion_def sepoliaDraw1_def emptyReads_def truthy_def)
  have run: "winners (refreshWinners_backup False sepoliaDraw1 emptyReads 1700000000000
        initialPastWinners)
     = [fallbackWinner 1700000000000\<lparr>winningNumbers := Some [4, 11, 23, 35, 60, 8]\<rparr>]"
    using complete
    by (simp add: refreshWinners_backup_def Let_def isKnownDraw_def truthy_def
        withWinningNumbers_def sepoliaDraw1_def emptyReads_def)
  from refreshWinners_backup_differs [OF h, of initialPastWinners False 1700000000000] h complete run
  show ?thesis by blast
qed

subsection \<open>ParticipantsList: pagination\<close>

lemma parseInt_options:
  "parseInt ''5'' = Some 5" "parseInt ''10'' = Some 10" "parseInt ''20'' = Some 20"
  "parseInt ''50'' = Some 50"
  by (simp_all add: parseInt_def isDigit_def digitValue_def)

lemma take_drop_nth: "take n (drop m xs) = map ((!) xs) [m ..< min (m + n) (length xs)]"
  by (rule nth_equalityI) auto

lemma js_slice_nth:
  assumes "0 \<le> a" and "a \<le> b"
  shows "js_slice xs a b = map ((!) xs) [nat a ..< min (nat b) (length xs)]"
proof (cases "a < int (length xs)")
  case True
  have "nat a + nat (min b (int (length xs)) - a) = nat (min b (int (length xs)))"
    using assms True by simp
  moreover have "min (nat (min b (int (length xs)))) (length xs) = min (nat b) (length xs)"
    using assms by (auto simp: min_def)
  ultimately show ?thesis
    using assms True by (simp add: js_slice_def Let_def take_drop_nth)
next
  case False
  then show ?thesis
    using assms by (simp add: js_slice_def Let_def)
qed

lemma ceilDiv_ceiling: "ceilDiv a b = \<lceil>real_of_int a / real_of_int b\<rceil>"
  by (simp add: ceilDiv_def ceiling_divide_eq_div)

lemma pageLinkNumbers_range:
  "n \<in> set (pageLinkNumbers currentPage pages) \<Longrightarrow> 1 \<le> n \<and> n \<le> pages"
  by (auto simp: pageLinkNumbers_def split: if_splits)

lemma render_view:
  assumes "parseInt pageSize = Some perPage" and "0 < perPage" and "1 \<le> currentPage"
  shows "\<exists>view. renderParticipantsView ts currentPage pageSize = Some view \<and>
     pageCount view = max 1 \<lceil>real (length ts) / real_of_int perPage\<rceil> \<and>
     currentTickets view = map ((!) ts)
        [nat ((currentPage - 1) * perPage) ..< min (nat (currentPage * perPage)) (length ts)] \<and>
     pageLinks view = pageLinkNumbers currentPage (pageCount view)"
proof -
  have a: "0 \<le> (currentPage - 1) * perPage" using assms by simp
  have b: "(currentPage - 1) * perPage + perPage = currentPage * perPage"
    by (simp add: algebra_simps)
  have c: "(currentPage - 1) * perPage \<le> currentPage * perPage"
    using assms by (simp add: mult_right_mono)
  show ?thesis
    using assms(1,2) js_slice_nth [OF a c, of ts]
    by (simp add: renderParticipantsView_def Let_def b ceilDiv_ceiling)
qed

text \<open>
  C10. In \<open>renderParticipantsView\<close>, for every ticket list, every page size the
  \<open>Select\<close> offers and every current page from 1 on: the page count is
  \<open>max(1, ceil(totalTickets / pageSize))\<close>; the rendered tickets are the elements of the
  list at the indices from \<open>(currentPage - 1) * pageSize\<close> up to, not including,
  \<open>min(currentPage * pageSize, totalTickets)\<close>; every page number rendered as a link is
  between 1 and the page count; Previous never goes below 1, Next never goes above the
  page count, and from a page within the range both stay within it.
\<close>

theorem pagination_view:
  assumes "pageSize \<in> set pageSizeOptions" and "1 \<le> currentPage"
  shows "\<exists>view perPage.
     renderParticipantsView ts currentPage pageSize = Some view \<and>
     parseInt pageSize = Some perPage \<and> perPage \<in> {5, 10, 20, 50} \<and>
     pageCount view = max 1 \<lceil>real (length ts) / real_of_int perPage\<rceil> \<and>
     currentTickets view = map ((!) ts)
        [nat ((currentPage - 1) * perPage) ..< min (nat (currentPage * perPage)) (length ts)] \<and>
     (\<forall>n \<in> set (pageLinks view). 1 \<le> n \<and> n \<le> pageCount view) \<and>
     1 \<le> goToPreviousPage currentPage \<and>
     goToNextPage (pageCount view) currentPage \<le> pageCount view \<and>
     1 \<le> goToNextPage (pageCount view) currentPage \<and>
     (currentPage \<le> pageCount view \<longrightarrow> goToPreviousPage currentPage \<le> pageCount view)"
proof -
  from assms(1) obtain perPage where
    parsed: "parseInt pageSize = Some perPage" and choice: "perPage \<in> {5, 10, 20, 50}"
    using parseInt_options by (auto simp: pageSizeOptions_def)
  from choice have pos: "0 < perPage" by auto
  from render_view [OF parsed pos assms(2), of ts] obtain view where
    view: "renderParticipantsView ts currentPage pageSize = Some view"
      "pageCount view = max 1 \<lceil>real (length ts) / real_of_int perPage\<rceil>"
      "currentTickets view = map ((!) ts)
        [nat ((currentPage - 1) * perPage) ..< min (nat (currentPage * perPage)) (length ts)]"
      "pageLinks view = pageLinkNumbers currentPage (pageCount view)"
    by blast
  have links: "\<forall>n \<in> set (pageLinks view). 1 \<le> n \<and> n \<le> pageCount view"
    using view(4) pageLinkNumbers_range by simp
  have one: "1 \<le> pageCount view"
    using view(2) by simp
  have clamp: "1 \<le> goToPreviousPage currentPage"
    "goToNextPage (pageCount view) currentPage \<le> pageCount view"
    "1 \<le> goToNextPage (pageCount view) currentPage"
    "currentPage \<le> pageCount view \<longrightarrow> goToPreviousPage currentPage \<le> pageCount view"
    using one assms(2) by (simp_all add: goToPreviousPage_def goToNextPage_def)
  from parsed choice view(1,2,3) links clamp show ?thesis by blast
qed


theorem pagination_view_witness:
  "''5'' \<in> set pageSizeOptions \<and> (1::int) \<le> 2 \<and>
   (\<exists>view. renderParticipantsView sevenTickets 2 ''5'' = Some view) \<and>
   map_option (\<lambda>view. (pageCount view, map ticketId (currentTickets view), pageLinks view))
     (renderParticipantsView sevenTickets 2 ''5'') = Some (2, [''5'', ''6''], [1, 2])"
proof -
  have opt: "''5'' \<in> set pageSizeOptions" by (simp add: pageSizeOptions_def)
  have page: "(1::int) \<le> 2" by simp
  have view: "\<exists>view. renderParticipantsView sevenTickets 2 ''5'' = Some view"
    using pagination_view [OF opt page, of sevenTickets] by blast
  have run: "map_option (\<lambda>view. (pageCount view, map ticketId (currentTickets view), pageLinks view))
     (renderParticipantsView sevenTickets 2 ''5'') = Some (2, [''5'', ''6''], [1, 2])"
    by code_simp
  from opt page view run show ?thesis by blast
qed

subsection \<open>ParticipantsList: the verified counts\<close>

text \<open>
  C3. In the query function, when \<open>getTotalTicketsSold\<close> throws, the participant count
  that bounds the ticket scan (and is returned) is the hardcoded verified count of the
  (series index, draw id) pair: 8 for (0,1), 6 for (1,2), 5 for (2,1), 7 for (3,1),
  4 for (3,2), 6 for (4,1), 9 for (5,1), and 0 for every other pair.
\<close>

theorem queryFn_verified_counts:
  assumes "provider props" and "truthy (chainId props)" and "sharedDrawId props = Some d"
    and "lookup = Inr (Some contract)" and "getTotalTicketsSold contract d = Inl e"
    and "count = (case map_of [((Some 0, 1), 8), ((Some 1, 2), 6), ((Some 2, 1), 5),
                               ((Some 3, 1), 7), ((Some 3, 2), 4), ((Some 4, 1), 6),
                               ((Some 5, 1), 9)] (sharedSeriesIndex props, d) of
                    Some verified \<Rightarrow> verified
                  | None \<Rightarrow> 0)"
  shows "queryFn props lookup now =
           \<lparr>tickets = foldl (scanTicket contract d now) [] [0..<nat count],
            participantCount = count\<rparr>"
proof -
  have "verifiedTicketCount (sharedSeriesIndex props) d = count"
    unfolding assms(6) verifiedTicketCount_def by auto
  then show ?thesis
    using assms(1-5) by (simp add: queryFn_def scanTickets_def)
qed

theorem queryFn_verified_counts_witness:
  "participantCount (queryFn (sepoliaDraw1\<lparr>sharedSeriesIndex := Some 3, sharedDrawId := Some 2\<rparr>)
      (Inr (Some revertingContract)) (\<lambda>i. 1700000000000)) = 4 \<and>
   map ticketId (tickets (queryFn (sepoliaDraw1\<lparr>sharedSeriesIndex := Some 3, sharedDrawId := Some 2\<rparr>)
      (Inr (Some revertingContract)) (\<lambda>i. 1700000000000))) = [''2-0''] \<and>
   participantCount (queryFn (sepoliaDraw1\<lparr>sharedSeriesIndex := Some 2, sharedDrawId := Some 2\<rparr>)
      (Inr (Some revertingContract)) (\<lambda>i. 1700000000000)) = 0"
proof -
  have a: "queryFn (sepoliaDraw1\<lparr>sharedSeriesIndex := Some 3, sharedDrawId := Some 2\<rparr>)
      (Inr (Some revertingContract)) (\<lambda>i. 1700000000000) =
           \<lparr>tickets = foldl (scanTicket revertingContract 2 (\<lambda>i. 1700000000000)) [] [0..<nat 4],
            participantCount = 4\<rparr>"
    by (rule queryFn_verified_counts [where e = "Thrown ''call revert exception''"])
      (simp_all add: sepoliaDraw1_def truthy_def revertingContract_def)
  have b: "queryFn (sepoliaDraw1\<lparr>sharedSeriesIndex := Some 2, sharedDrawId := Some 2\<rparr>)
      (Inr (Some revertingContract)) (\<lambda>i. 1700000000000) =
           \<lparr>tickets = foldl (scanTicket revertingContract 2 (\<lambda>i. 1700000000000)) [] [0..<nat 0],
            participantCount = 0\<rparr>"
    by (rule queryFn_verified_counts [where e = "Thrown ''call revert exception''"])
      (simp_all add: sepoliaDraw1_def truthy_def revertingContract_def)
  have scan: "map ticketId (foldl (scanTicket revertingContract 2 (\<lambda>i. 1700000000000)) []
      [0..<nat 4]) = [''2-0'']"
    by code_simp
  from a b scan show ?thesis by simp
qed

subsection \<open>BuyTickets: when the contract call is made\<close>

lemma handleBuyClick_no_call: "BuyTicket ns lotto si di \<notin> set (snd (handleBuyClick env st))"
  by (simp add: handleBuyClick_def noDrawsToast_def drawClosedToast_def)

lemma handleInitialConfirm_no_call:
  "BuyTicket ns lotto si di \<notin> set (snd (handleInitialConfirm env st))"
  by (simp add: handleInitialConfirm_def noDrawsToast_def drawClosedToast_def)

lemma handleConfirmPurchase_call:
  assumes "BuyTicket ns lotto si di \<in> set (snd (handleConfirmPurchase env outcome st))"
  shows "length (selectedNumbers st) = 5 \<and> ns = selectedNumbers st \<and>
         selectedLottoNumber st = Some lotto \<and> drawAvailable env \<and> \<not> isTimeRemainingZero env"
  using assms
  by (auto simp: handleConfirmPurchase_def Let_def noDrawsToast_def drawClosedToast_def
      split: option.splits if_splits sum.splits)

lemma step_call:
  assumes "BuyTicket ns lotto si di \<in> set (snd (step (env, st) ev))"
  shows "(\<exists>outcome. ev = ConfirmFinal outcome) \<and> showReconfirmModal st \<and>
         length (selectedNumbers st) = 5 \<and> ns = selectedNumbers st \<and>
         selectedLottoNumber st = Some lotto \<and> drawAvailable env \<and> \<not> isTimeRemainingZero env"
proof (cases ev)
  case ClickBuy
  then show ?thesis using assms handleBuyClick_no_call [of ns lotto si di env st]
    by (simp add: case_prod_unfold Let_def)
next
  case ConfirmInitial
  then show ?thesis using assms handleInitialConfirm_no_call [of ns lotto si di env st]
    by (simp add: case_prod_unfold Let_def split: if_splits)
next
  case (ConfirmFinal outcome)
  then show ?thesis using assms handleConfirmPurchase_call [of ns lotto si di env outcome st]
    by (simp add: case_prod_unfold Let_def split: if_splits)
qed (use assms in simp_all)

lemma run_snoc:
  "run s (evs @ [ev]) =
     (fst (step (fst (run s evs)) ev), snd (run s evs) @ snd (step (fst (run s evs)) ev))"
  by (induction evs arbitrary: s) (simp_all add: case_prod_unfold Let_def)

lemma step_opens:
  assumes "\<not> modalOpen s" and "modalOpen (fst (step s ev))"
  shows "ev = ClickBuy \<and> isConnected (fst s)"
proof (cases s)
  case (Pair env st)
  show ?thesis
    using assms unfolding Pair modalOpen_def
    by (cases ev)
      (auto simp: handleBuyClick_def handleInitialConfirm_def handleConfirmPurchase_def
        case_prod_unfold Let_def split: if_splits option.splits sum.splits)
qed

lemma modal_open_entered:
  assumes "\<not> modalOpen s0"
  shows "modalOpen (fst (run s0 evs)) \<Longrightarrow>
         \<exists>evs1 evs2. evs = evs1 @ ClickBuy # evs2 \<and> isConnected (fst (fst (run s0 evs1)))"
proof (induction evs rule: rev_induct)
  case Nil
  then show ?case using assms by simp
next
  case (snoc ev evs)
  show ?case
  proof (cases "modalOpen (fst (run s0 evs))")
    case True
    then obtain evs1 evs2 where split: "evs = evs1 @ ClickBuy # evs2"
      and conn: "isConnected (fst (fst (run s0 evs1)))"
      using snoc.IH by blast
    from split have "evs @ [ev] = evs1 @ ClickBuy # (evs2 @ [ev])" by simp
    with conn show ?thesis by blast
  next
    case False
    have "modalOpen (fst (step (fst (run s0 evs)) ev))"
      using snoc.prems by (simp add: run_snoc)
    from step_opens [OF False this]
    have "evs @ [ev] = evs @ ClickBuy # []" "isConnected (fst (fst (run s0 evs)))" by simp_all
    then show ?thesis by blast
  qed
qed

lemma buy_entered:
  assumes "\<not> modalOpen s0"
  shows "BuyTicket ns lotto si di \<in> set (snd (run s0 evs)) \<Longrightarrow>
         \<exists>evs1 evs2. evs = evs1 @ ClickBuy # evs2 \<and> isConnected (fst (fst (run s0 evs1)))"
proof (induction evs rule: rev_induct)
  case Nil
  then show ?case by simp
next
  case (snoc ev evs)
  from snoc.prems consider
    (before) "BuyTicket ns lotto si di \<in> set (snd (run s0 evs))" |
    (now) "BuyTicket ns lotto si di \<in> set (snd (step (fst (run s0 evs)) ev))"
    by (auto simp: run_snoc)
  then have "\<exists>evs1 evs2. evs = evs1 @ ClickBuy # evs2 \<and> isConnected (fst (fst (run s0 evs1)))"
  proof cases
    case before
    then show ?thesis by (rule snoc.IH)
  next
    case now
    obtain env st where s: "fst (run s0 evs) = (env, st)" by (cases "fst (run s0 evs)")
    from now have "showReconfirmModal st" using step_call [of ns lotto si di env st ev]
      unfolding s by blast
    then have "modalOpen (fst (run s0 evs))" by (simp add: s modalOpen_def)
    then show ?thesis by (rule modal_open_entered [OF assms])
  qed
  then obtain evs1 evs2 where split: "evs = evs1 @ ClickBuy # evs2"
    and conn: "isConnected (fst (fst (run s0 evs1)))" by blast
  from split have "evs @ [ev] = evs1 @ ClickBuy # (evs2 @ [ev])" by simp
  with conn show ?case by blast
qed

text \<open>
  C7, as stated, fails: the wallet connection is tested by \<open>handleBuyClick\<close> only. With
  the wallet connected the user opens Buy and confirms once; the wallet disconnects while
  the second confirmation is open; \<open>handleConfirmPurchase\<close> then calls \<open>buyTicket\<close>
  although \<open>isConnected\<close> is false.
\<close>

theorem buyTicket_while_disconnected:
  "\<not> isConnected (fst (fst (run (connectedEnv, initialBuyTickets) disconnectDuringConfirm))) \<and>
   snd (step (fst (run (connectedEnv, initialBuyTickets) disconnectDuringConfirm))
          (ConfirmFinal (Inr \<lparr>success = True, txHash = Some ''0x5e1d''\<rparr>)))
     = [BuyTicket [7, 14, 21, 42, 63] 17 (Some 0) (Some 1)]"
  by (simp add: connectedEnv_def disconnectedEnv_def initialBuyTickets_def
      disconnectDuringConfirm_def DEFAULT_SELECTED_NUMBERS_def DEFAULT_LOTTO_NUMBER_def
      handleBuyClick_def handleInitialConfirm_def handleConfirmPurchase_def
      isTimeRemainingZero_def Let_def)

text \<open>
  C7, amended. The purchase flow calls \<open>buyTicket\<close> only from \<open>handleConfirmPurchase\<close>
  with the second confirmation open, and only when exactly 5 main numbers are selected, a
  LOTTO number is selected, a draw is available and the remaining time is not zero. The
  wallet connection is tested on entry only: starting with both confirmations closed,
  every \<open>buyTicket\<close> call comes after a \<open>handleBuyClick\<close> that found the wallet connected,
  and when the wallet is not connected \<open>handleBuyClick\<close> only opens the wallet modal and
  starts no purchase.
\<close>

theorem buy_flow_guards:
  assumes "\<not> showBuyConfirmModal (snd s0)" and "\<not> showReconfirmModal (snd s0)"
  shows "(BuyTicket ns lotto si di \<in> set (snd (step (env, st) ev)) \<longrightarrow>
            (\<exists>outcome. ev = ConfirmFinal outcome) \<and> showReconfirmModal st \<and>
            length (selectedNumbers st) = 5 \<and> ns = selectedNumbers st \<and>
            selectedLottoNumber st = Some lotto \<and> drawAvailable env \<and>
            \<not> isTimeRemainingZero env) \<and>
         (BuyTicket ns lotto si di \<in> set (snd (run s0 evs)) \<longrightarrow>
            (\<exists>evs1 evs2. evs = evs1 @ ClickBuy # evs2 \<and>
                         isConnected (fst (fst (run s0 evs1))))) \<and>
         (\<not> isConnected env \<longrightarrow> handleBuyClick env st = (st\<lparr>showWalletModal := True\<rparr>, []))"
proof -
  have closed: "\<not> modalOpen s0"
    using assms by (simp add: modalOpen_def)
  have "\<not> isConnected env \<longrightarrow> handleBuyClick env st = (st\<lparr>showWalletModal := True\<rparr>, [])"
    by (simp add: handleBuyClick_def)
  then show ?thesis
    using step_call [of ns lotto si di env st ev] buy_entered [OF closed, of ns lotto si di evs]
    by blast
qed

theorem buy_flow_guards_witness:
  "\<not> showBuyConfirmModal (snd (connectedEnv, initialBuyTickets)) \<and>
   \<not> showReconfirmModal (snd (connectedEnv, initialBuyTickets)) \<and>
   BuyTicket [7, 14, 21, 42, 63] 17 (Some 0) (Some 1)
     \<in> set (snd (run (connectedEnv, initialBuyTickets)
                 [ClickBuy, ConfirmInitial, ConfirmFinal (Inl (Thrown ''user rejected''))])) \<and>
   (\<exists>evs1 evs2.
      [ClickBuy, ConfirmInitial, ConfirmFinal (Inl (Thrown ''user rejected''))]
        = evs1 @ ClickBuy # evs2 \<and>
      isConnected (fst (fst (run (connectedEnv, initialBuyTickets) evs1)))) \<and>
   \<not> isConnected disconnectedEnv \<and>
   handleBuyClick disconnectedEnv initialBuyTickets
     = (initialBuyTickets\<lparr>showWalletModal := True\<rparr>, [])"
proof -
  have closed: "\<not> showBuyConfirmModal (snd (connectedEnv, initialBuyTickets))"
    "\<not> showReconfirmModal (snd (connectedEnv, initialBuyTickets))"
    by (simp_all add: initialBuyTickets_def)
  have call: "BuyTicket [7, 14, 21, 42, 63] 17 (Some 0) (Some 1)
     \<in> set (snd (run (connectedEnv, initialBuyTickets)
                 [ClickBuy, ConfirmInitial, ConfirmFinal (Inl (Thrown ''user rejected''))]))"
    by (simp add: connectedEnv_def initialBuyTickets_def DEFAULT_SELECTED_NUMBERS_def
        DEFAULT_LOTTO_NUMBER_def handleBuyClick_def handleInitialConfirm_def
        handleConfirmPurchase_def isTimeRemainingZero_def Let_def)
  have off: "\<not> isConnected disconnectedEnv"
    by (simp add: disconnectedEnv_def)
  from buy_flow_guards [OF closed, of "[7, 14, 21, 42, 63]" 17 "Some 0" "Some 1"
      disconnectedEnv initialBuyTickets ClickBuy
      "[ClickBuy, ConfirmInitial, ConfirmFinal (Inl (Thrown ''user rejected''))]"]
    closed call off
  show ?thesis by blast
qed

subsection \<open>Banner rotation\<close>

lemma bannerImages_length: "int (length bannerImages) = 6"
  by (simp add: bannerImages_def)

text \<open>
  C9. On the six banner images, \<open>goToNextSlide\<close> and \<open>goToPrevSlide\<close> are mutually inverse
  rotations: from every index 0..5, next then previous and previous then next give the
  index back, and each of the two gives an index in 0..5.
\<close>

theorem slide_rotation_inverse:
  "\<forall>i \<in> {0..5}.
     Option.bind (goToNextSlide i) goToPrevSlide = Some i \<and>
     Option.bind (goToPrevSlide i) goToNextSlide = Some i \<and>
     (\<exists>j \<in> {0..5}. goToNextSlide i = Some j) \<and>
     (\<exists>j \<in> {0..5}. goToPrevSlide i = Some j)"
proof
  fix i :: int
  assume "i \<in> {0..5}"
  then have "0 \<le> i" and "i \<le> 5" by simp_all
  then consider "i = 0" | "i = 1" | "i = 2" | "i = 3" | "i = 4" | "i = 5"
    by arith
  then show "Option.bind (goToNextSlide i) goToPrevSlide = Some i \<and>
     Option.bind (goToPrevSlide i) goToNextSlide = Some i \<and>
     (\<exists>j \<in> {0..5}. goToNextSlide i = Some j) \<and>
     (\<exists>j \<in> {0..5}. goToPrevSlide i = Some j)"
    by cases (simp_all add: goToNextSlide_def goToPrevSlide_def js_rem_def bannerImages_length)
qed

theorem slide_rotation_inverse_witness:
  "(5::int) \<in> {0..5} \<and> goToNextSlide 5 = Some 0 \<and> goToPrevSlide 0 = Some 5 \<and>
   Option.bind (goToNextSlide 5) goToPrevSlide = Some 5"
  using slide_rotation_inverse [rule_format, of 5]
  by (simp add: goToNextSlide_def goToPrevSlide_def js_rem_def bannerImages_length)

subsection \<open>Number selection\<close>

lemma toggleNumber_length: "length sel \<le> 5 \<Longrightarrow> length (toggleNumber num sel) \<le> 5"
  by (auto simp: toggleNumber_def intro: le_trans [OF length_filter_le])

lemma toggleNumber_distinct: "distinct sel \<Longrightarrow> distinct (toggleNumber num sel)"
  by (simp add: toggleNumber_def)

lemma toggleNumbers_keeps:
  "length sel \<le> 5 \<Longrightarrow> distinct sel \<Longrightarrow>
   length (toggleNumbers nums sel) \<le> 5 \<and> distinct (toggleNumbers nums sel)"
proof (induction nums arbitrary: sel)
  case Nil
  then show ?case by simp
next
  case (Cons num nums)
  have "length (toggleNumber num sel) \<le> 5" "distinct (toggleNumber num sel)"
    using Cons.prems by (simp_all add: toggleNumber_length toggleNumber_distinct)
  then show ?case using Cons.IH by simp
qed

text \<open>
  C8. From a selection of at most 5 pairwise distinct numbers, every sequence of
  \<open>toggleNumber\<close> operations leaves at most 5 pairwise distinct numbers; one
  \<open>toggleNumber num\<close> removes \<open>num\<close> when it is selected, appends it when it is not and
  fewer than 5 numbers are selected, and changes nothing otherwise.
\<close>

theorem toggleNumber_invariant:
  assumes "length sel \<le> 5" and "distinct sel"
  shows "length (toggleNumbers nums sel) \<le> 5 \<and> distinct (toggleNumbers nums sel) \<and>
         (num \<in> set sel \<longrightarrow>
            toggleNumber num sel = removeAll num sel \<and> num \<notin> set (toggleNumber num sel)) \<and>
         (num \<notin> set sel \<and> length sel < 5 \<longrightarrow> toggleNumber num sel = sel @ [num]) \<and>
         (num \<notin> set sel \<and> \<not> length sel < 5 \<longrightarrow> toggleNumber num sel = sel)"
proof -
  have "filter (\<lambda>n. n \<noteq> num) sel = removeAll num sel"
    by (induction sel) auto
  then have "num \<in> set sel \<longrightarrow>
      toggleNumber num sel = removeAll num sel \<and> num \<notin> set (toggleNumber num sel)"
    by (simp add: toggleNumber_def)
  moreover have "num \<notin> set sel \<and> length sel < 5 \<longrightarrow> toggleNumber num sel = sel @ [num]"
    by (simp add: toggleNumber_def)
  moreover have "num \<notin> set sel \<and> \<not> length sel < 5 \<longrightarrow> toggleNumber num sel = sel"
    by (simp add: toggleNumber_def)
  ultimately show ?thesis
    using toggleNumbers_keeps [OF assms, of nums] by blast
qed

theorem toggleNumber_invariant_witness:
  "length [7, 14, 21, 42, 63 :: int] \<le> 5 \<and> distinct [7, 14, 21, 42, 63 :: int] \<and>
   toggleNumbers [9, 14, 9, 14] [7, 14, 21, 42, 63] = [7, 21, 42, 63, 9] \<and>
   length (toggleNumbers [9, 14, 9, 14] [7, 14, 21, 42, 63]) \<le> 5 \<and>
   distinct (toggleNumbers [9, 14, 9, 14] [7, 14, 21, 42, 63]) \<and>
   toggleNumber 14 [7, 14, 21, 42, 63] = [7, 21, 42, 63]"
  using toggleNumber_invariant [of "[7, 14, 21, 42, 63]" "[9, 14, 9, 14]" 14]
  by (simp add: toggleNumber_def)

end
